theory Spec2Isabelle
  imports Main
begin

section \<open>Python values\<close>

text \<open>
  Exceptions raised by the code (or by the library calls it makes) are values of
  \<open>py_error\<close>; a function that may raise returns \<open>py_error + 'a\<close>, with \<open>Inl\<close> the
  exception. \<open>RuntimeError\<close> is raised by the configuration loader only, with one of
  three messages ("Configuracao invalida", "Codigo Interrompido", "Erro Inesperado",
  written with their accents in the source); \<open>OtherException\<close> stands for any other
  exception of the spreadsheet reading library, with its message.
\<close>

datatype runtime_message = Configuracao_invalida | Codigo_Interrompido | Erro_Inesperado

datatype py_error =
    ValueError
  | FileNotFoundError
  | PermissionError
  | KeyError
  | AttributeError
  | IndexError
  | ImportError
  | RuntimeError runtime_message
  | OtherException string

subsection \<open>Strings\<close>

text \<open>
  Python strings are modelled as \<open>string\<close> over ASCII text. \<open>is_space\<close> holds of the
  ASCII characters that \<open>str.strip()\<close> removes, \<open>upper_char\<close> and \<open>lower_char\<close> are
  \<open>str.upper()\<close> and \<open>str.lower()\<close> on one ASCII character.
\<close>

definition is_space :: "char \<Rightarrow> bool" where
  "is_space c = (c \<in> set [CHR '' '', CHR 0x09, CHR 0x0A, CHR 0x0B, CHR 0x0C, CHR 0x0D,
                           CHR 0x1C, CHR 0x1D, CHR 0x1E, CHR 0x1F])"

definition strip :: "string \<Rightarrow> string" where
  "strip s = rev (dropWhile is_space (rev (dropWhile is_space s)))"

definition upper_char :: "char \<Rightarrow> char" where
  "upper_char c =
     (case map_of (zip ''abcdefghijklmnopqrstuvwxyz'' ''ABCDEFGHIJKLMNOPQRSTUVWXYZ'') c of
        Some u \<Rightarrow> u | None \<Rightarrow> c)"

definition lower_char :: "char \<Rightarrow> char" where
  "lower_char c =
     (case map_of (zip ''ABCDEFGHIJKLMNOPQRSTUVWXYZ'' ''abcdefghijklmnopqrstuvwxyz'') c of
        Some l \<Rightarrow> l | None \<Rightarrow> c)"

definition upper :: "string \<Rightarrow> string" where
  "upper s = map upper_char s"

definition lower :: "string \<Rightarrow> string" where
  "lower s = map lower_char s"

text \<open>\<open>str(i)\<close> for a Python int: the decimal numeral, with a minus sign when negative.\<close>

definition digit_char :: "nat \<Rightarrow> char" where
  "digit_char d = ''0123456789'' ! d"

fun str_nat :: "nat \<Rightarrow> string" where
  "str_nat n = (if n < 10 then [digit_char n] else str_nat (n div 10) @ [digit_char (n mod 10)])"

declare str_nat.simps [simp del]

definition str_int :: "int \<Rightarrow> string" where
  "str_int i = (if i < 0 then CHR ''-'' # str_nat (nat (- i)) else str_nat (nat i))"

section \<open>utils.py: current_ano_safra\<close>

text \<open>
  \<^verbatim>\<open>
  def current_ano_safra(month=None) -> str:
      if month is None:
          month = datetime.now().month
      if not 1<= month <= 12:
          raise ValueError(...)
      if month == 4:
          return str(1)
      elif month >= 5:
          return str(month - 3)
      else:
          return str(month + 9)
  \<close>
  The system clock is the parameter \<open>now_month\<close>.
\<close>

definition current_ano_safra :: "int \<Rightarrow> int option \<Rightarrow> py_error + string" where
  "current_ano_safra now_month month_arg =
     (let month = (case month_arg of None \<Rightarrow> now_month | Some m \<Rightarrow> m) in
      if \<not> (1 \<le> month \<and> month \<le> 12) then Inl ValueError
      else if month = 4 then Inr (str_int 1)
      else if month \<ge> 5 then Inr (str_int (month - 3))
      else Inr (str_int (month + 9)))"

section \<open>utils.py: validate_file\<close>

text \<open>
  The file system is a parameter: \<open>fs_exists\<close> is \<open>Path(p).exists()\<close>, \<open>fs_readable\<close>
  is \<open>os.access(p, os.R_OK)\<close>, \<open>fs_is_file\<close> and \<open>fs_is_dir\<close> are what the schema
  types \<open>FilePath\<close> and \<open>DirectoryPath\<close> of the configuration loader test.
\<close>

record filesystem =
  fs_exists :: "string \<Rightarrow> bool"
  fs_readable :: "string \<Rightarrow> bool"
  fs_is_file :: "string \<Rightarrow> bool"
  fs_is_dir :: "string \<Rightarrow> bool"

text \<open>
  \<^verbatim>\<open>
  def validate_file(path) -> True:
      p = Path(path)
      if not p.exists():
          raise FileNotFoundError(...)
      if not os.access(p, os.R_OK):
          raise PermissionError(...)
      return True
  \<close>
\<close>

definition validate_file :: "'a filesystem_scheme \<Rightarrow> string \<Rightarrow> py_error + bool" where
  "validate_file fs p =
     (if \<not> fs_exists fs p then Inl FileNotFoundError
      else if \<not> fs_readable fs p then Inl PermissionError
      else Inr True)"

text \<open>A file system with two readable files, one unreadable file and one directory.\<close>

definition fs_example :: filesystem where
  "fs_example =
     \<lparr> fs_exists = (\<lambda>p. p \<in> set [''data/input.xlsx'', ''data/notas.csv'', ''data/locked.xls'', ''out'']),
       fs_readable = (\<lambda>p. p \<in> set [''data/input.xlsx'', ''data/notas.csv'', ''out'']),
       fs_is_file = (\<lambda>p. p \<in> set [''data/input.xlsx'', ''data/notas.csv'', ''data/locked.xls'']),
       fs_is_dir = (\<lambda>p. p = ''out'') \<rparr>"

section \<open>Tables\<close>

text \<open>
  A pandas DataFrame is a list of column labels (duplicates allowed), and a list of rows,
  each with its index label and its cells in column order. Index labels are the integers
  that \<open>remove_lines\<close> is called with; a freshly read table has the labels
  \<open>0, 1, ..., n - 1\<close> (\<open>default_index\<close>), and the operations below that drop rows
  keep the labels of the rows that stay, as pandas does.

  A cell is a string, an int, \<open>None\<close>, the float \<open>nan\<close> or \<open>pd.NA\<close>; floats other
  than \<open>nan\<close> are outside the model. The last three are the missing values (\<open>isna\<close>).
  \<open>str_of_cell\<close> is \<open>str(x)\<close>, which is what \<open>Series.astype(str)\<close> stores for every
  element, missing or not (pandas 1.x and 2.x).

  Every column has a dtype, which pandas keeps whatever the rows are, also when there
  are none: \<open>Object\<close> for a column of Python objects (text, or values of several
  kinds), \<open>Int64\<close> and \<open>Float64\<close> for the numeric columns.
\<close>

datatype dtype = Object | Int64 | Float64

datatype cell = Str string | Num int | PyNone | NaN | NA

fun isna :: "cell \<Rightarrow> bool" where
  "isna PyNone = True"
| "isna NaN = True"
| "isna NA = True"
| "isna _ = False"

fun is_Str :: "cell \<Rightarrow> bool" where
  "is_Str (Str s) = True"
| "is_Str _ = False"

fun str_of_cell :: "cell \<Rightarrow> string" where
  "str_of_cell (Str s) = s"
| "str_of_cell (Num i) = str_int i"
| "str_of_cell PyNone = ''None''"
| "str_of_cell NaN = ''nan''"
| "str_of_cell NA = ''<NA>''"

record table =
  columns :: "string list"
  dtypes :: "dtype list"
  rows :: "(int \<times> cell list) list"

definition wf_table :: "table \<Rightarrow> bool" where
  "wf_table df =
     (length (dtypes df) = length (columns df) \<and>
      (\<forall>r \<in> set (rows df). length (snd r) = length (columns df)))"

definition default_index :: "table \<Rightarrow> bool" where
  "default_index df = (map fst (rows df) = map int [0..<length (rows df)])"

subsection \<open>Library operations on rows and columns\<close>

text \<open>\<open>list(range(a, b))\<close>.\<close>

definition py_range :: "int \<Rightarrow> int \<Rightarrow> int list" where
  "py_range a b = [a..b - 1]"

text \<open>
  \<open>df.drop(labels)\<close>: the rows whose index label is in \<open>labels\<close> are left out of the
  result; \<open>KeyError\<close> if a label is not in the index.
\<close>

definition drop_rows :: "int list \<Rightarrow> table \<Rightarrow> py_error + table" where
  "drop_rows labels df =
     (if \<exists>l \<in> set labels. l \<notin> set (map fst (rows df)) then Inl KeyError
      else Inr (df\<lparr>rows := filter (\<lambda>r. fst r \<notin> set labels) (rows df)\<rparr>))"

text \<open>Boolean indexing: the elements of \<open>xs\<close> where \<open>keep\<close> is true.\<close>

definition select :: "bool list \<Rightarrow> 'a list \<Rightarrow> 'a list" where
  "select keep xs = map snd (filter fst (zip keep xs))"

text \<open>\<open>xs[a:b]\<close>: a negative bound counts from the end, both are clipped to the list.\<close>

definition py_slice :: "int \<Rightarrow> int \<Rightarrow> 'a list \<Rightarrow> 'a list" where
  "py_slice a b xs =
     (let n = int (length xs);
          lo = (if a < 0 then max 0 (n + a) else min n a);
          hi = (if b < 0 then max 0 (n + b) else min n b)
      in take (nat (hi - lo)) (drop (nat lo) xs))"

text \<open>
  \<open>df.columns[list_of_ints]\<close>: the labels at the given positions, a negative position
  counting from the end; \<open>IndexError\<close> if a position is out of bounds.
\<close>

definition take_positions :: "int list \<Rightarrow> 'a list \<Rightarrow> py_error + 'a list" where
  "take_positions ps xs =
     (let n = int (length xs) in
      if \<exists>p \<in> set ps. p < - n \<or> n \<le> p then Inl IndexError
      else Inr (map (\<lambda>p. xs ! nat (if p < 0 then n + p else p)) ps))"

text \<open>
  \<open>df.drop(names, axis=1)\<close>: every column whose label is in \<open>names\<close> is left out;
  \<open>KeyError\<close> if a name is not a column label.
\<close>

definition drop_columns :: "string list \<Rightarrow> table \<Rightarrow> py_error + table" where
  "drop_columns names df =
     (if \<exists>c \<in> set names. c \<notin> set (columns df) then Inl KeyError
      else let keep = map (\<lambda>c. c \<notin> set names) (columns df) in
        Inr \<lparr> columns = select keep (columns df),
              dtypes = select keep (dtypes df),
              rows = map (\<lambda>r. (fst r, select keep (snd r))) (rows df) \<rparr>)"

text \<open>
  \<open>df[column]\<close> is a Series when exactly one column has that label, a DataFrame when
  several have it, and raises \<open>KeyError\<close> when none has.
\<close>

datatype column_lookup = Absent | Unique nat | Duplicated

definition lookup_column :: "string \<Rightarrow> string list \<Rightarrow> column_lookup" where
  "lookup_column c cs =
     (case filter (\<lambda>i. cs ! i = c) [0..<length cs] of
        [] \<Rightarrow> Absent
      | [i] \<Rightarrow> Unique i
      | _ \<Rightarrow> Duplicated)"

definition column_values :: "nat \<Rightarrow> table \<Rightarrow> cell list" where
  "column_values i df = map (\<lambda>r. snd r ! i) (rows df)"

text \<open>
  \<open>df[col] = df[col].f()\<close> for an elementwise \<open>f\<close> that gives an object Series (as
  \<open>astype(str)\<close>, the \<open>.str\<close> methods and \<open>replace\<close> by \<open>pd.NA\<close> do), on the column at
  position \<open>i\<close>: the column takes the dtype of the Series assigned to it.
\<close>

definition map_column :: "nat \<Rightarrow> (cell \<Rightarrow> cell) \<Rightarrow> table \<Rightarrow> table" where
  "map_column i f df =
     df\<lparr>dtypes := (dtypes df)[i := Object],
        rows := map (\<lambda>r. (fst r, (snd r)[i := f (snd r ! i)])) (rows df)\<rparr>"

text \<open>
  The \<open>.str\<close> accessor exists on a Series only: a DataFrame has no attribute \<open>str\<close>
  (\<open>AttributeError\<close>). On a Series it raises \<open>AttributeError\<close> ("Can only use .str
  accessor with string values") when the inferred type of the values is not a string
  type: for a numeric column the type is that of its dtype, whatever the rows are, also
  when there are none; for an object column it is inferred from the values that are not
  missing, and the accessor is there when they are none at all, or include a string. Its
  methods give \<open>nan\<close> for every element that is not a string.
\<close>

definition str_accessor_ok :: "dtype \<Rightarrow> cell list \<Rightarrow> bool" where
  "str_accessor_ok dt vs =
     (dt = Object \<and>
      (let present = filter (\<lambda>v. \<not> isna v) vs
       in present = [] \<or> (\<exists>v \<in> set present. is_Str v)))"

fun str_strip :: "cell \<Rightarrow> cell" where
  "str_strip (Str s) = Str (strip s)"
| "str_strip _ = NaN"

fun str_upper :: "cell \<Rightarrow> cell" where
  "str_upper (Str s) = Str (upper s)"
| "str_upper _ = NaN"

text \<open>
  \<open>Index.duplicated()\<close>: true at every position whose element occurred before;
  \<open>Series.unique()\<close> keeps the first occurrence of every value, in order.
\<close>

fun duplicated :: "'a list \<Rightarrow> 'a list \<Rightarrow> bool list" where
  "duplicated seen [] = []"
| "duplicated seen (x # xs) = (x \<in> set seen) # duplicated (x # seen) xs"

definition unique :: "'a list \<Rightarrow> 'a list" where
  "unique xs = select (map Not (duplicated [] xs)) xs"

text \<open>\<open>Series.replace(to_replace, v)\<close> on one element.\<close>

definition replace :: "cell \<Rightarrow> cell \<Rightarrow> cell \<Rightarrow> cell" where
  "replace to_replace v c = (if c = to_replace then v else c)"

section \<open>utils.py: the transforms\<close>

text \<open>
  Each function of the source returns a closure \<open>transform_df\<close>; the model is the function
  of the captured arguments and the table. The variadic \<open>*args\<close> is a list.

  \<^verbatim>\<open>
  def remove_lines(*args, mode='individual'):
      def transform_df(df):
          if mode == 'interval' and len(args) == 1:
              return df.drop(list(range(0, args[0])))
          elif mode == 'interval' and len(args) == 2:
              return df.drop(list(range(args[0],args[1])))
          else:
              return df.drop(list(args))
      return transform_df
  \<close>
\<close>

definition remove_lines :: "int list \<Rightarrow> string \<Rightarrow> table \<Rightarrow> py_error + table" where
  "remove_lines args mode df =
     (if mode = ''interval'' \<and> length args = 1 then drop_rows (py_range 0 (args ! 0)) df
      else if mode = ''interval'' \<and> length args = 2 then drop_rows (py_range (args ! 0) (args ! 1)) df
      else drop_rows args df)"

text \<open>
  \<^verbatim>\<open>
  def remove_columns(*args, mode='individual'):
      def transform_df(df):
          if mode == 'interval' and len(args) == 1:
              return df.drop(df.columns[0:args[0]], axis=1)
          elif mode == 'interval' and len(args) == 2:
              return df.drop(df.columns[args[0]:args[1]], axis=1)
          else:
              return df.drop(df.columns[list(args)], axis=1)
      return transform_df
  \<close>
\<close>

definition remove_columns :: "int list \<Rightarrow> string \<Rightarrow> table \<Rightarrow> py_error + table" where
  "remove_columns args mode df =
     (if mode = ''interval'' \<and> length args = 1 then
        drop_columns (py_slice 0 (args ! 0) (columns df)) df
      else if mode = ''interval'' \<and> length args = 2 then
        drop_columns (py_slice (args ! 0) (args ! 1) (columns df)) df
      else
        (case take_positions args (columns df) of
           Inl e \<Rightarrow> Inl e
         | Inr names \<Rightarrow> drop_columns names df))"

text \<open>
  \<^verbatim>\<open>
  def rename_columns(*args):
      def transform_df(df):
          return df.set_axis(list(args), axis=1)
      return transform_df
  \<close>
  \<open>set_axis\<close> raises \<open>ValueError\<close> when the number of labels is not the number of columns.
\<close>

definition rename_columns :: "string list \<Rightarrow> table \<Rightarrow> py_error + table" where
  "rename_columns args df =
     (if length args \<noteq> length (columns df) then Inl ValueError
      else Inr (df\<lparr>columns := args\<rparr>))"

text \<open>
  \<^verbatim>\<open>
  def filter_columns(column, *args):
      def transform_df(df):
          values = args[0] if len(args) == 1 and isinstance(args[0], (list, pd.Series, set)) else args
          return df[df[column].str.strip().isin(values)].copy()
      return transform_df
  \<close>
  The arguments after \<open>column\<close> are either scalar values (\<open>Variadic\<close>) or one list,
  Series or set of scalar values (\<open>Collection\<close>). \<open>isin\<close> is membership.
\<close>

datatype values_arg = Variadic "cell list" | Collection "cell list"

definition filter_columns :: "string \<Rightarrow> values_arg \<Rightarrow> table \<Rightarrow> py_error + table" where
  "filter_columns column args df =
     (let values = (case args of Collection vs \<Rightarrow> vs | Variadic vs \<Rightarrow> vs) in
      case lookup_column column (columns df) of
        Absent \<Rightarrow> Inl KeyError
      | Duplicated \<Rightarrow> Inl AttributeError
      | Unique i \<Rightarrow>
          if \<not> str_accessor_ok (dtypes df ! i) (column_values i df) then Inl AttributeError
          else Inr (df\<lparr>rows := filter (\<lambda>r. str_strip (snd r ! i) \<in> set values) (rows df)\<rparr>))"

text \<open>
  \<^verbatim>\<open>
  def extract_column(column, mode='not-in', *args):
      def transform_column(df):
          df = df.loc[:, ~df.columns.duplicated()].copy()
          df.columns = [str(c).strip() for c in df.columns]
          if column not in df.columns:
              raise KeyError(...)
          unique_values = (df.loc[:, column].dropna().astype(str).str.strip().unique())
          if mode == 'not-in':
              column_list = [t for t in unique_values if t not in args]
          elif mode == "in":
              column_list = [t for t in unique_values if t in args]
          else:
              raise ValueError(...)
          return column_list
      return transform_column
  \<close>
  When two columns have the label \<open>column\<close> after the names are stripped,
  \<open>df.loc[:, column]\<close> is a DataFrame, \<open>dropna\<close> and \<open>astype\<close> go through and \<open>.str\<close>
  raises \<open>AttributeError\<close>. After \<open>astype(str)\<close> every element of a Series is a string, so
  \<open>.str\<close> is available there. The elements \<open>t\<close> are strings, and \<open>t in args\<close> compares
  them with the reference values.
\<close>

definition extract_column :: "string \<Rightarrow> string \<Rightarrow> cell list \<Rightarrow> table \<Rightarrow> py_error + string list" where
  "extract_column column mode args df =
     (let keep = map Not (duplicated [] (columns df));
          df1 = \<lparr> columns = select keep (columns df),
                  dtypes = select keep (dtypes df),
                  rows = map (\<lambda>r. (fst r, select keep (snd r))) (rows df) \<rparr>;
          df2 = df1\<lparr>columns := map strip (columns df1)\<rparr>
      in case lookup_column column (columns df2) of
           Absent \<Rightarrow> Inl KeyError
         | Duplicated \<Rightarrow> Inl AttributeError
         | Unique i \<Rightarrow>
             let unique_values =
                   unique (map strip (map str_of_cell (filter (\<lambda>v. \<not> isna v) (column_values i df2))))
             in if mode = ''not-in'' then Inr (filter (\<lambda>t. Str t \<notin> set args) unique_values)
                else if mode = ''in'' then Inr (filter (\<lambda>t. Str t \<in> set args) unique_values)
                else Inl ValueError)"

text \<open>
  \<^verbatim>\<open>
  def clean_key(col: str | list):
      column_list = [col] if isinstance(col, str) else col
      def transform_df(df):
          df = df.copy()
          for col in column_list:
              if col not in df.columns:
                  raise KeyError(...)
              df[col] = df[col].astype(str).str.strip().str.upper()
              df[col] = df[col].replace('NAN', pd.NA).replace('NONE', pd.NA)
          return df
      return transform_df
  \<close>
\<close>

datatype col_arg = One string | Many "string list"

fun clean_key_loop :: "string list \<Rightarrow> table \<Rightarrow> py_error + table" where
  "clean_key_loop [] df = Inr df"
| "clean_key_loop (col # cols) df =
     (case lookup_column col (columns df) of
        Absent \<Rightarrow> Inl KeyError
      | Duplicated \<Rightarrow> Inl AttributeError
      | Unique i \<Rightarrow>
          let df1 = map_column i (\<lambda>c. str_upper (str_strip (Str (str_of_cell c)))) df;
              df2 = map_column i (\<lambda>c. replace (Str ''NONE'') NA (replace (Str ''NAN'') NA c)) df1
          in clean_key_loop cols df2)"

definition clean_key :: "col_arg \<Rightarrow> table \<Rightarrow> py_error + table" where
  "clean_key col df =
     (let column_list = (case col of One c \<Rightarrow> [c] | Many cs \<Rightarrow> cs) in clean_key_loop column_list df)"

subsection \<open>The transforms on a store of table objects\<close>

text \<open>
  To say which table object a transform writes to, the tables live in a store: a reference
  is a position in the list of the objects allocated so far, and a new object goes at
  the end. A pandas method that returns a new DataFrame (\<open>drop\<close>, \<open>set_axis\<close>, boolean
  indexing, \<open>loc\<close>, \<open>copy\<close>) allocates; an assignment \<open>df.columns = ...\<close> or
  \<open>df[col] = ...\<close> overwrites the object that the local name \<open>df\<close> refers to. A transform
  takes the reference of its argument and the store, and returns the store it leaves
  with the reference of its result, or with the exception raised.
\<close>

type_synonym ref = nat
type_synonym store = "table list"

definition new_object :: "table \<Rightarrow> store \<Rightarrow> store \<times> ref" where
  "new_object t h = (h @ [t], length h)"

definition remove_lines_store ::
  "int list \<Rightarrow> string \<Rightarrow> ref \<Rightarrow> store \<Rightarrow> store \<times> (py_error + ref)" where
  "remove_lines_store args mode df h =
     (case remove_lines args mode (h ! df) of
        Inl e \<Rightarrow> (h, Inl e)
      | Inr t \<Rightarrow> (let (h', r) = new_object t h in (h', Inr r)))"

definition remove_columns_store ::
  "int list \<Rightarrow> string \<Rightarrow> ref \<Rightarrow> store \<Rightarrow> store \<times> (py_error + ref)" where
  "remove_columns_store args mode df h =
     (case remove_columns args mode (h ! df) of
        Inl e \<Rightarrow> (h, Inl e)
      | Inr t \<Rightarrow> (let (h', r) = new_object t h in (h', Inr r)))"

definition rename_columns_store :: "string list \<Rightarrow> ref \<Rightarrow> store \<Rightarrow> store \<times> (py_error + ref)" where
  "rename_columns_store args df h =
     (case rename_columns args (h ! df) of
        Inl e \<Rightarrow> (h, Inl e)
      | Inr t \<Rightarrow> (let (h', r) = new_object t h in (h', Inr r)))"

text \<open>\<open>df[...]\<close> builds the selection, \<open>.copy()\<close> a second object, which is returned.\<close>

definition filter_columns_store ::
  "string \<Rightarrow> values_arg \<Rightarrow> ref \<Rightarrow> store \<Rightarrow> store \<times> (py_error + ref)" where
  "filter_columns_store column args df h =
     (case filter_columns column args (h ! df) of
        Inl e \<Rightarrow> (h, Inl e)
      | Inr t \<Rightarrow>
          (let (h1, selected) = new_object t h;
               (h2, r) = new_object (h1 ! selected) h1
           in (h2, Inr r)))"

text \<open>
  The local name \<open>df\<close> is rebound to the copy of the selection, and the assignment to
  \<open>df.columns\<close> writes to that copy.
\<close>

definition extract_column_store ::
  "string \<Rightarrow> string \<Rightarrow> cell list \<Rightarrow> ref \<Rightarrow> store \<Rightarrow> store \<times> (py_error + string list)" where
  "extract_column_store column mode args df0 h =
     (let keep = map Not (duplicated [] (columns (h ! df0)));
          (h1, selected) =
             new_object \<lparr> columns = select keep (columns (h ! df0)),
                          dtypes = select keep (dtypes (h ! df0)),
                          rows = map (\<lambda>r. (fst r, select keep (snd r))) (rows (h ! df0)) \<rparr> h;
          (h2, df) = new_object (h1 ! selected) h1;
          h3 = h2[df := (h2 ! df)\<lparr>columns := map strip (columns (h2 ! df))\<rparr>]
      in case lookup_column column (columns (h3 ! df)) of
           Absent \<Rightarrow> (h3, Inl KeyError)
         | Duplicated \<Rightarrow> (h3, Inl AttributeError)
         | Unique i \<Rightarrow>
             let unique_values =
                   unique (map strip (map str_of_cell
                     (filter (\<lambda>v. \<not> isna v) (column_values i (h3 ! df)))))
             in if mode = ''not-in'' then (h3, Inr (filter (\<lambda>t. Str t \<notin> set args) unique_values))
                else if mode = ''in'' then (h3, Inr (filter (\<lambda>t. Str t \<in> set args) unique_values))
                else (h3, Inl ValueError))"

text \<open>The loop of \<open>clean_key\<close> assigns twice to \<open>df[col]\<close>, in the copy made before it.\<close>

fun clean_key_loop_store :: "string list \<Rightarrow> ref \<Rightarrow> store \<Rightarrow> store \<times> (py_error + ref)" where
  "clean_key_loop_store [] df h = (h, Inr df)"
| "clean_key_loop_store (col # cols) df h =
     (case lookup_column col (columns (h ! df)) of
        Absent \<Rightarrow> (h, Inl KeyError)
      | Duplicated \<Rightarrow> (h, Inl AttributeError)
      | Unique i \<Rightarrow>
          let h1 = h[df := map_column i (\<lambda>c. str_upper (str_strip (Str (str_of_cell c)))) (h ! df)];
              h2 = h1[df := map_column i (\<lambda>c. replace (Str ''NONE'') NA (replace (Str ''NAN'') NA c))
                              (h1 ! df)]
          in clean_key_loop_store cols df h2)"

definition clean_key_store :: "col_arg \<Rightarrow> ref \<Rightarrow> store \<Rightarrow> store \<times> (py_error + ref)" where
  "clean_key_store col df0 h =
     (let column_list = (case col of One c \<Rightarrow> [c] | Many cs \<Rightarrow> cs);
          (h1, df) = new_object (h ! df0) h
      in clean_key_loop_store column_list df h1)"

subsection \<open>Row removal by position, and example tables\<close>

text \<open>
  What the specification says of row removal: the rows at the listed 0-based positions
  of the table, as it is when the transform runs, are deleted.
\<close>

definition delete_positions :: "int list \<Rightarrow> table \<Rightarrow> table" where
  "delete_positions ps df =
     df\<lparr>rows := map snd (filter (\<lambda>ir. int (fst ir) \<notin> set ps) (enumerate 0 (rows df)))\<rparr>"

text \<open>
  The table of the repository's tests (\<open>df_exemplo\<close> in \<open>tests/test_utils.py\<close>): the
  columns A and C hold integers, the column B text.
\<close>

definition df_exemplo :: table where
  "df_exemplo = \<lparr> columns = [''A'', ''B'', ''C''],
     dtypes = [Int64, Object, Int64],
     rows = [(0, [Num 1, Str ''  Varejo  '', Num 10]),
             (1, [Num 2, Str ''Atacado'', Num 20]),
             (2, [Num 3, Str '' Varejo'', Num 30]),
             (3, [Num 4, Str ''Outro'', Num 40]),
             (4, [Num 5, Str ''Atacado'', Num 50])] \<rparr>"

text \<open>\<open>df_exemplo\<close> without its first row: the rows keep the labels 1 to 4.\<close>

definition df_sem_cabecalho :: table where
  "df_sem_cabecalho = \<lparr> columns = [''A'', ''B'', ''C''],
     dtypes = [Int64, Object, Int64],
     rows = [(1, [Num 2, Str ''Atacado'', Num 20]),
             (2, [Num 3, Str '' Varejo'', Num 30]),
             (3, [Num 4, Str ''Outro'', Num 40]),
             (4, [Num 5, Str ''Atacado'', Num 50])] \<rparr>"


text \<open>
  The same for columns: the elements of a list at the listed 0-based positions are left
  out, and a table loses the columns at the listed positions, with their dtypes and cells.
\<close>

definition delete_at :: "int list \<Rightarrow> 'a list \<Rightarrow> 'a list" where
  "delete_at ps xs = map snd (filter (\<lambda>ix. int (fst ix) \<notin> set ps) (enumerate 0 xs))"

definition delete_column_positions :: "int list \<Rightarrow> table \<Rightarrow> table" where
  "delete_column_positions ps df =
     \<lparr> columns = delete_at ps (columns df),
       dtypes = delete_at ps (dtypes df),
       rows = map (\<lambda>r. (fst r, delete_at ps (snd r))) (rows df) \<rparr>"

text \<open>A table in which two columns have the label A.\<close>

definition df_duplicadas :: table where
  "df_duplicadas = \<lparr> columns = [''A'', ''B'', ''A''], dtypes = [Int64, Object, Int64],
     rows = [(0, [Num 1, Str ''x'', Num 10]), (1, [Num 2, Str ''y'', Num 20])] \<rparr>"

text \<open>Column B of \<open>df_exemplo\<close> alone.\<close>

definition df_so_B :: table where
  "df_so_B = \<lparr> columns = [''B''], dtypes = [Object],
     rows = [(0, [Str ''  Varejo  '']), (1, [Str ''Atacado'']), (2, [Str '' Varejo'']),
             (3, [Str ''Outro'']), (4, [Str ''Atacado''])] \<rparr>"

subsection \<open>What a transform leaves of the store\<close>

text \<open>
  \<open>untouched h h'\<close>: every object of the store \<open>h\<close> is still there in \<open>h'\<close>, with the
  value it had. \<open>fresh h h' res\<close>: a reference returned is one of an object allocated
  since \<open>h\<close>. \<open>frame_ok df h out\<close> puts the two together for the outcome \<open>out\<close> of a
  transform applied to \<open>df\<close>, and names the input.
\<close>

definition untouched :: "store \<Rightarrow> store \<Rightarrow> bool" where
  "untouched h h' = (length h \<le> length h' \<and> (\<forall>r < length h. h' ! r = h ! r))"

definition fresh :: "store \<Rightarrow> store \<Rightarrow> py_error + ref \<Rightarrow> bool" where
  "fresh h h' res = (case res of Inl e \<Rightarrow> True | Inr r \<Rightarrow> length h \<le> r \<and> r < length h')"

definition frame_ok :: "ref \<Rightarrow> store \<Rightarrow> store \<times> (py_error + ref) \<Rightarrow> bool" where
  "frame_ok df h out = (untouched h (fst out) \<and> fst out ! df = h ! df \<and> fresh h (fst out) (snd out))"

subsection \<open>Tables with missing values and with padded column names\<close>

text \<open>
  A key column holding the text nan (padded), None and a name; what \<open>clean_key\<close> makes
  of it; and what \<open>clean_key\<close> makes of that.
\<close>

definition df_chaves :: table where
  "df_chaves = \<lparr> columns = [''X''], dtypes = [Object],
     rows =[(0, [Str '' nan '']), (1, [PyNone]), (2, [Str ''ab''])] \<rparr>"

definition df_chaves_once :: table where
  "df_chaves_once = \<lparr> columns = [''X''], dtypes = [Object],
     rows =[(0, [NA]), (1, [NA]), (2, [Str ''AB''])] \<rparr>"

definition df_chaves_twice :: table where
  "df_chaves_twice = \<lparr> columns = [''X''], dtypes = [Object],
     rows =[(0, [Str ''<NA>'']), (1, [Str ''<NA>'']), (2, [Str ''AB''])] \<rparr>"

text \<open>Two columns whose labels differ by a trailing space only.\<close>

definition df_nomes :: table where
  "df_nomes = \<lparr> columns = [''KAM'', ''KAM ''], dtypes = [Object, Object],
     rows =[(0, [Str ''Ana'', Str ''x'']), (1, [Str ''A CLASSIFICAR'', Str ''y''])] \<rparr>"

section \<open>Properties\<close>

subsection \<open>current_ano_safra\<close>

lemma str_int_digit: "0 \<le> i \<Longrightarrow> i < 10 \<Longrightarrow> str_int i = [digit_char (nat i)]"
  by (simp add: str_int_def str_nat.simps)

lemma str_int_small:
  "str_int 1 = ''1''" "str_int 6 = ''6''" "str_int 10 = ''10''"
  by (simp_all add: str_int_def str_nat.simps digit_char_def)

text \<open>
  C4. For every month in 1..12 the result follows the three-branch rule: month 4 gives
  "1", a month from 5 on gives the string of month - 3, a month in 1..3 gives the string
  of month + 9; so month 4 gives "1", month 9 gives "6" and month 1 gives "10". For every
  month outside 1..12 the call fails with ValueError (the spec's InvalidArgument).
\<close>

theorem current_ano_safra_three_branch:
  "(m = 4 \<longrightarrow> current_ano_safra now (Some m) = Inr ''1'') \<and>
   (5 \<le> m \<and> m \<le> 12 \<longrightarrow> current_ano_safra now (Some m) = Inr (str_int (m - 3))) \<and>
   (1 \<le> m \<and> m < 4 \<longrightarrow> current_ano_safra now (Some m) = Inr (str_int (m + 9))) \<and>
   (m < 1 \<or> 12 < m \<longrightarrow> current_ano_safra now (Some m) = Inl ValueError) \<and>
   current_ano_safra now (Some 4) = Inr ''1'' \<and>
   current_ano_safra now (Some 9) = Inr ''6'' \<and>
   current_ano_safra now (Some 1) = Inr ''10''"
  by (auto simp: current_ano_safra_def str_int_small)

theorem current_ano_safra_three_branch_witness:
  "current_ano_safra 7 (Some 4) = Inr ''1'' \<and>
   current_ano_safra 7 (Some 12) = Inr ''9'' \<and>
   current_ano_safra 7 (Some 3) = Inr ''12'' \<and>
   current_ano_safra 7 (Some 13) = Inl ValueError \<and>
   current_ano_safra 7 (Some 0) = Inl ValueError"
proof -
  have s9: "str_int (12 - 3) = ''9''" and s12: "str_int (3 + 9) = ''12''"
    by (simp_all add: str_int_def str_nat.simps digit_char_def)
  have a: "current_ano_safra 7 (Some 4) = Inr ''1''"
    using current_ano_safra_three_branch [of 4 7] by blast
  have b: "current_ano_safra 7 (Some 12) = Inr ''9''"
    using current_ano_safra_three_branch [of 12 7] s9 by simp
  have c: "current_ano_safra 7 (Some 3) = Inr ''12''"
    using current_ano_safra_three_branch [of 3 7] s12 by simp
  have d: "current_ano_safra 7 (Some 13) = Inl ValueError"
    using current_ano_safra_three_branch [of 13 7] by simp
  have e: "current_ano_safra 7 (Some 0) = Inl ValueError"
    using current_ano_safra_three_branch [of 0 7] by simp
  from a b c d e show ?thesis by blast
qed

subsection \<open>validate_file\<close>

text \<open>
  C9. validate_file fails with FileNotFoundError for every path that does not exist,
  fails with PermissionError for every path that exists but is not readable, and returns
  True for every path that exists and is readable.
\<close>

theorem validate_file_cases:
  "(\<not> fs_exists fs p \<longrightarrow> validate_file fs p = Inl FileNotFoundError) \<and>
   (fs_exists fs p \<and> \<not> fs_readable fs p \<longrightarrow> validate_file fs p = Inl PermissionError) \<and>
   (fs_exists fs p \<and> fs_readable fs p \<longrightarrow> validate_file fs p = Inr True)"
  by (simp add: validate_file_def)

theorem validate_file_cases_witness:
  "validate_file fs_example ''data/missing.xlsx'' = Inl FileNotFoundError \<and>
   validate_file fs_example ''data/locked.xls'' = Inl PermissionError \<and>
   validate_file fs_example ''data/input.xlsx'' = Inr True"
proof -
  have h1: "\<not> fs_exists fs_example ''data/missing.xlsx''"
    by (simp add: fs_example_def)
  have h2: "fs_exists fs_example ''data/locked.xls'' \<and> \<not> fs_readable fs_example ''data/locked.xls''"
    by (simp add: fs_example_def)
  have h3: "fs_exists fs_example ''data/input.xlsx'' \<and> fs_readable fs_example ''data/input.xlsx''"
    by (simp add: fs_example_def)
  have a: "validate_file fs_example ''data/missing.xlsx'' = Inl FileNotFoundError"
    using validate_file_cases [of fs_example "''data/missing.xlsx''"] h1 by blast
  have b: "validate_file fs_example ''data/locked.xls'' = Inl PermissionError"
    using validate_file_cases [of fs_example "''data/locked.xls''"] h2 by blast
  have c: "validate_file fs_example ''data/input.xlsx'' = Inr True"
    using validate_file_cases [of fs_example "''data/input.xlsx''"] h3 by blast
  from a b c show ?thesis by blast
qed

subsection \<open>remove_lines and remove_columns\<close>

lemma filter_labels_positions:
  "map fst xs = map int [k..<k + length xs] \<Longrightarrow>
   filter (\<lambda>r. fst r \<notin> S) xs = map snd (filter (\<lambda>ir. int (fst ir) \<notin> S) (enumerate k xs))"
proof (induction xs arbitrary: k)
  case Nil
  then show ?case by simp
next
  case (Cons x xs)
  have "[k..<k + length (x # xs)] = k # [Suc k..<Suc k + length xs]"
    by (simp add: upt_rec [of k] del: upt_Suc)
  with Cons.prems have "map fst (x # xs) = map int (k # [Suc k..<Suc k + length xs])"
    by (simp only:)
  then have hd: "fst x = int k" and tl: "map fst xs = map int [Suc k..<Suc k + length xs]"
    by (simp_all del: upt_Suc)
  from Cons.IH [OF tl] hd show ?case by simp
qed

lemma default_index_labels:
  assumes "default_index df"
  shows "set (map fst (rows df)) = {l. 0 \<le> l \<and> l < int (length (rows df))}"
proof -
  from assms have "set (map fst (rows df)) = int ` {0..<length (rows df)}"
    by (simp add: default_index_def)
  also have "\<dots> = {l. 0 \<le> l \<and> l < int (length (rows df))}"
  proof (rule set_eqI)
    fix l :: int
    show "l \<in> int ` {0..<length (rows df)} \<longleftrightarrow> l \<in> {l. 0 \<le> l \<and> l < int (length (rows df))}"
    proof
      assume "l \<in> int ` {0..<length (rows df)}"
      then show "l \<in> {l. 0 \<le> l \<and> l < int (length (rows df))}" by auto
    next
      assume "l \<in> {l. 0 \<le> l \<and> l < int (length (rows df))}"
      then have "l = int (nat l)" and "nat l \<in> {0..<length (rows df)}" by auto
      then show "l \<in> int ` {0..<length (rows df)}" by (rule image_eqI)
    qed
  qed
  finally show ?thesis .
qed

lemma drop_rows_default_index:
  assumes "default_index df"
  shows "drop_rows ls df =
     (if \<forall>p \<in> set ls. 0 \<le> p \<and> p < int (length (rows df)) then Inr (delete_positions ls df)
      else Inl KeyError)"
proof -
  from assms have "map fst (rows df) = map int [0..<0 + length (rows df)]"
    by (simp add: default_index_def)
  then have "filter (\<lambda>r. fst r \<notin> set ls) (rows df)
      = map snd (filter (\<lambda>ir. int (fst ir) \<notin> set ls) (enumerate 0 (rows df)))"
    by (rule filter_labels_positions)
  moreover have "(\<exists>l \<in> set ls. l \<notin> set (map fst (rows df)))
      \<longleftrightarrow> \<not> (\<forall>p \<in> set ls. 0 \<le> p \<and> p < int (length (rows df)))"
    unfolding default_index_labels [OF assms] by blast
  ultimately show ?thesis
    by (simp add: drop_rows_def delete_positions_def)
qed

lemma range_within:
  fixes a b L :: int
  shows "(\<forall>p. a \<le> p \<and> p < b \<longrightarrow> 0 \<le> p \<and> p < L) \<longleftrightarrow> (a < b \<longrightarrow> 0 \<le> a \<and> b \<le> L)"
proof
  assume h: "\<forall>p. a \<le> p \<and> p < b \<longrightarrow> 0 \<le> p \<and> p < L"
  show "a < b \<longrightarrow> 0 \<le> a \<and> b \<le> L"
  proof
    assume "a < b"
    from h have "a \<le> a \<and> a < b \<longrightarrow> 0 \<le> a \<and> a < L" by (rule spec)
    with \<open>a < b\<close> have "0 \<le> a" by simp
    from h have "a \<le> b - 1 \<and> b - 1 < b \<longrightarrow> 0 \<le> b - 1 \<and> b - 1 < L" by (rule spec)
    with \<open>a < b\<close> have "b \<le> L" by simp
    with \<open>0 \<le> a\<close> show "0 \<le> a \<and> b \<le> L" by simp
  qed
next
  assume "a < b \<longrightarrow> 0 \<le> a \<and> b \<le> L"
  then show "\<forall>p. a \<le> p \<and> p < b \<longrightarrow> 0 \<le> p \<and> p < L" by auto
qed

lemma set_py_range: "set (py_range a b) = {l. a \<le> l \<and> l < b}"
  by (auto simp: py_range_def)

lemma drop_rows_labels:
  "drop_rows ls df =
     (if set ls \<subseteq> fst ` set (rows df) then Inr (df\<lparr>rows := filter (\<lambda>r. fst r \<notin> set ls) (rows df)\<rparr>)
      else Inl KeyError)"
  by (auto simp: drop_rows_def)

text \<open>
  C1 (as amended). The numbers given to remove_lines are index labels, not positions: in
  individual mode the rows labelled with the listed values are deleted, in interval mode
  with one index n the rows labelled 0 to n - 1, with two indices a, b the rows labelled
  a to b - 1, and the call fails with KeyError when one of these labels is not in the
  index. On a table with the default index (labels 0 to len - 1 in row order) this is the
  deletion of the rows at those 0-based positions, provided every position is in range.
\<close>

theorem remove_lines_labels_and_positions:
  "remove_lines ps ''individual'' df =
     (if set ps \<subseteq> fst ` set (rows df)
      then Inr (df\<lparr>rows := filter (\<lambda>r. fst r \<notin> set ps) (rows df)\<rparr>) else Inl KeyError) \<and>
   remove_lines [n] ''interval'' df =
     (if {l. 0 \<le> l \<and> l < n} \<subseteq> fst ` set (rows df)
      then Inr (df\<lparr>rows := filter (\<lambda>r. \<not> (0 \<le> fst r \<and> fst r < n)) (rows df)\<rparr>) else Inl KeyError) \<and>
   remove_lines [a, b] ''interval'' df =
     (if {l. a \<le> l \<and> l < b} \<subseteq> fst ` set (rows df)
      then Inr (df\<lparr>rows := filter (\<lambda>r. \<not> (a \<le> fst r \<and> fst r < b)) (rows df)\<rparr>) else Inl KeyError) \<and>
   (default_index df \<longrightarrow>
      remove_lines ps ''individual'' df =
        (if \<forall>p \<in> set ps. 0 \<le> p \<and> p < int (length (rows df))
         then Inr (delete_positions ps df) else Inl KeyError) \<and>
      remove_lines [n] ''interval'' df =
        (if n \<le> int (length (rows df))
         then Inr (delete_positions (py_range 0 n) df) else Inl KeyError) \<and>
      remove_lines [a, b] ''interval'' df =
        (if a < b \<longrightarrow> 0 \<le> a \<and> b \<le> int (length (rows df))
         then Inr (delete_positions (py_range a b) df) else Inl KeyError))"
proof (intro conjI impI)
  show "remove_lines ps ''individual'' df =
     (if set ps \<subseteq> fst ` set (rows df)
      then Inr (df\<lparr>rows := filter (\<lambda>r. fst r \<notin> set ps) (rows df)\<rparr>) else Inl KeyError)"
    by (simp add: remove_lines_def drop_rows_labels)
  show "remove_lines [n] ''interval'' df =
     (if {l. 0 \<le> l \<and> l < n} \<subseteq> fst ` set (rows df)
      then Inr (df\<lparr>rows := filter (\<lambda>r. \<not> (0 \<le> fst r \<and> fst r < n)) (rows df)\<rparr>) else Inl KeyError)"
    by (simp add: remove_lines_def drop_rows_labels set_py_range)
  show "remove_lines [a, b] ''interval'' df =
     (if {l. a \<le> l \<and> l < b} \<subseteq> fst ` set (rows df)
      then Inr (df\<lparr>rows := filter (\<lambda>r. \<not> (a \<le> fst r \<and> fst r < b)) (rows df)\<rparr>) else Inl KeyError)"
    by (simp add: remove_lines_def drop_rows_labels set_py_range)
next
  assume d: "default_index df"
  show "remove_lines ps ''individual'' df =
        (if \<forall>p \<in> set ps. 0 \<le> p \<and> p < int (length (rows df))
         then Inr (delete_positions ps df) else Inl KeyError)"
    by (simp add: remove_lines_def drop_rows_default_index [OF d])
  have "(\<forall>p \<in> set (py_range 0 n). 0 \<le> p \<and> p < int (length (rows df))) \<longleftrightarrow> n \<le> int (length (rows df))"
    using range_within [of 0 n "int (length (rows df))"] by (auto simp: set_py_range)
  then show "remove_lines [n] ''interval'' df =
        (if n \<le> int (length (rows df))
         then Inr (delete_positions (py_range 0 n) df) else Inl KeyError)"
    by (simp add: remove_lines_def drop_rows_default_index [OF d])
  have "(\<forall>p \<in> set (py_range a b). 0 \<le> p \<and> p < int (length (rows df)))
        \<longleftrightarrow> (a < b \<longrightarrow> 0 \<le> a \<and> b \<le> int (length (rows df)))"
    using range_within [of a b "int (length (rows df))"] by (simp add: set_py_range)
  then show "remove_lines [a, b] ''interval'' df =
        (if a < b \<longrightarrow> 0 \<le> a \<and> b \<le> int (length (rows df))
         then Inr (delete_positions (py_range a b) df) else Inl KeyError)"
    by (simp add: remove_lines_def drop_rows_default_index [OF d])
qed


text \<open>
  The test of the repository: the first two rows of the five-row table are removed, three
  rows stay, and the first of them is the row that was at position 2.
\<close>

lemma default_index_df_exemplo: "default_index df_exemplo"
  by (simp add: default_index_def df_exemplo_def upt_rec)

theorem remove_lines_labels_and_positions_witness:
  "default_index df_exemplo \<and>
   remove_lines [2] ''interval'' df_exemplo = Inr (delete_positions (py_range 0 2) df_exemplo) \<and>
   delete_positions (py_range 0 2) df_exemplo =
     \<lparr> columns = [''A'', ''B'', ''C''],
       dtypes = [Int64, Object, Int64],
       rows = [(2, [Num 3, Str '' Varejo'', Num 30]),
               (3, [Num 4, Str ''Outro'', Num 40]),
               (4, [Num 5, Str ''Atacado'', Num 50])] \<rparr>"
proof -
  have len: "(2::int) \<le> int (length (rows df_exemplo))"
    by (simp add: df_exemplo_def)
  have "default_index df_exemplo \<longrightarrow>
      remove_lines [2] ''interval'' df_exemplo =
        (if 2 \<le> int (length (rows df_exemplo))
         then Inr (delete_positions (py_range 0 2) df_exemplo) else Inl KeyError)"
    using remove_lines_labels_and_positions [where df = df_exemplo and n = 2] by blast
  with default_index_df_exemplo len
  have r: "remove_lines [2] ''interval'' df_exemplo = Inr (delete_positions (py_range 0 2) df_exemplo)"
    by (simp only: if_True)
  have v: "delete_positions (py_range 0 2) df_exemplo =
     \<lparr> columns = [''A'', ''B'', ''C''],
       dtypes = [Int64, Object, Int64],
       rows = [(2, [Num 3, Str '' Varejo'', Num 30]),
               (3, [Num 4, Str ''Outro'', Num 40]),
               (4, [Num 5, Str ''Atacado'', Num 50])] \<rparr>"
    by (simp add: delete_positions_def py_range_def df_exemplo_def upto.simps)
  from default_index_df_exemplo r v show ?thesis by blast
qed

text \<open>
  C1 as stated fails. A table that lost its first row keeps the labels 1 to 4; removing
  "row 1" from it deletes the row at position 0 (label 1), not the row at position 1, and
  removing the interval of two rows fails with KeyError since no row is labelled 0.
\<close>

theorem remove_lines_by_position_counterexample:
  "remove_lines [0] ''individual'' df_exemplo = Inr df_sem_cabecalho \<and>
   remove_lines [1] ''individual'' df_sem_cabecalho \<noteq> Inr (delete_positions [1] df_sem_cabecalho) \<and>
   remove_lines [2] ''interval'' df_sem_cabecalho \<noteq> Inr (delete_positions (py_range 0 2) df_sem_cabecalho)"
  by (simp add: remove_lines_def drop_rows_def delete_positions_def py_range_def
        df_exemplo_def df_sem_cabecalho_def upto.simps)

subsection \<open>Interval mode with another number of indices\<close>

lemma select_map:
  "select (map g js) xs = map snd (filter (\<lambda>jx. g (fst jx)) (zip js xs))"
  by (simp add: select_def zip_map1 filter_map o_def case_prod_beta)

lemma select_map_same: "select (map g xs) xs = filter g xs"
  by (induction xs) (simp_all add: select_def)

lemma zip_nth_enumerate:
  assumes "length cs = length xs"
  shows "zip cs xs = map (\<lambda>jx. (cs ! fst jx, snd jx)) (enumerate 0 xs)"
proof -
  have "zip cs xs = zip (map (\<lambda>j. cs ! j) [0..<length cs]) xs"
    by (simp add: map_nth)
  also have "\<dots> = map (\<lambda>jx. (cs ! fst jx, snd jx)) (zip [0..<length cs] xs)"
    by (simp add: zip_map1 case_prod_beta)
  also from assms have "zip [0..<length cs] xs = enumerate 0 xs"
    by (simp add: enumerate_eq_zip)
  finally show ?thesis .
qed

lemma labels_at_positions:
  assumes d: "distinct cs" and r: "\<forall>p \<in> set ps. 0 \<le> p \<and> p < int (length cs)" and j: "j < length cs"
  shows "cs ! j \<in> (\<lambda>p. cs ! nat p) ` set ps \<longleftrightarrow> int j \<in> set ps"
proof
  assume "cs ! j \<in> (\<lambda>p. cs ! nat p) ` set ps"
  then obtain p where p: "p \<in> set ps" and e: "cs ! j = cs ! nat p" by blast
  from r p have "0 \<le> p" and "nat p < length cs" by auto
  with d j e have "j = nat p" by (simp add: nth_eq_iff_index_eq)
  with \<open>0 \<le> p\<close> have "int j = p" by simp
  with p show "int j \<in> set ps" by simp
next
  assume "int j \<in> set ps"
  then have "cs ! nat (int j) \<in> (\<lambda>p. cs ! nat p) ` set ps" by (rule imageI)
  then show "cs ! j \<in> (\<lambda>p. cs ! nat p) ` set ps" by simp
qed

lemma drop_labels_is_delete_at:
  assumes d: "distinct cs" and r: "\<forall>p \<in> set ps. 0 \<le> p \<and> p < int (length cs)"
    and l: "length cs = length xs"
  shows "map snd (filter (\<lambda>cx. fst cx \<notin> (\<lambda>p. cs ! nat p) ` set ps) (zip cs xs)) = delete_at ps xs"
proof -
  have "filter (\<lambda>cx. fst cx \<notin> (\<lambda>p. cs ! nat p) ` set ps) (zip cs xs)
      = map (\<lambda>jx. (cs ! fst jx, snd jx))
          (filter (\<lambda>jx. cs ! fst jx \<notin> (\<lambda>p. cs ! nat p) ` set ps) (enumerate 0 xs))"
    by (simp add: zip_nth_enumerate [OF l] filter_map o_def)
  also have "filter (\<lambda>jx. cs ! fst jx \<notin> (\<lambda>p. cs ! nat p) ` set ps) (enumerate 0 xs)
      = filter (\<lambda>jx. int (fst jx) \<notin> set ps) (enumerate 0 xs)"
  proof (rule filter_cong [OF refl])
    fix jx assume "jx \<in> set (enumerate 0 xs)"
    then have "fst jx < length xs" by (auto simp: in_set_enumerate_eq)
    with l have "fst jx < length cs" by simp
    from labels_at_positions [OF d r this]
    show "(cs ! fst jx \<notin> (\<lambda>p. cs ! nat p) ` set ps) = (int (fst jx) \<notin> set ps)" by simp
  qed
  finally show ?thesis by (simp add: delete_at_def o_def)
qed


lemma take_positions_in_range:
  assumes "\<not> (\<exists>p \<in> set ps. p < - int (length xs) \<or> int (length xs) \<le> p)"
  shows "take_positions ps xs
           = Inr (map (\<lambda>p. xs ! nat (if p < 0 then int (length xs) + p else p)) ps)"
    and "set (map (\<lambda>p. xs ! nat (if p < 0 then int (length xs) + p else p)) ps) \<subseteq> set xs"
proof -
  from assms show "take_positions ps xs
           = Inr (map (\<lambda>p. xs ! nat (if p < 0 then int (length xs) + p else p)) ps)"
    by (simp add: take_positions_def Let_def)
  show "set (map (\<lambda>p. xs ! nat (if p < 0 then int (length xs) + p else p)) ps) \<subseteq> set xs"
  proof
    fix c assume "c \<in> set (map (\<lambda>p. xs ! nat (if p < 0 then int (length xs) + p else p)) ps)"
    then obtain p where p: "p \<in> set ps"
      and c: "c = xs ! nat (if p < 0 then int (length xs) + p else p)" by auto
    from assms p have "- int (length xs) \<le> p" and "p < int (length xs)" by auto
    then have "nat (if p < 0 then int (length xs) + p else p) < length xs" by auto
    with c show "c \<in> set xs" by simp
  qed
qed

lemma drop_columns_present:
  assumes "set names \<subseteq> set (columns df)"
  shows "drop_columns names df =
     Inr \<lparr> columns = filter (\<lambda>c. c \<notin> set names) (columns df),
           dtypes = map snd (filter (\<lambda>cx. fst cx \<notin> set names) (zip (columns df) (dtypes df))),
           rows = map (\<lambda>r. (fst r, map snd (filter (\<lambda>cx. fst cx \<notin> set names) (zip (columns df) (snd r)))))
                      (rows df) \<rparr>"
proof -
  from assms have "\<not> (\<exists>c \<in> set names. c \<notin> set (columns df))" by blast
  then show ?thesis
    unfolding drop_columns_def Let_def select_map_same
    by (simp add: select_map)
qed

lemma remove_columns_listed:
  assumes "\<not> (mode = ''interval'' \<and> (length args = 1 \<or> length args = 2))"
  shows "remove_columns args mode df =
     (if \<exists>p \<in> set args. p < - int (length (columns df)) \<or> int (length (columns df)) \<le> p
      then Inl IndexError
      else Inr \<lparr> columns = filter (\<lambda>c. c \<notin> (\<lambda>p. columns df ! nat (if p < 0 then int (length (columns df)) + p else p)) ` set args) (columns df),
                 dtypes = map snd (filter (\<lambda>cx. fst cx \<notin> (\<lambda>p. columns df ! nat (if p < 0 then int (length (columns df)) + p else p)) ` set args) (zip (columns df) (dtypes df))),
                 rows = map (\<lambda>r. (fst r, map snd (filter (\<lambda>cx. fst cx \<notin> (\<lambda>p. columns df ! nat (if p < 0 then int (length (columns df)) + p else p)) ` set args) (zip (columns df) (snd r)))))
                            (rows df) \<rparr>)"
proof (cases "\<exists>p \<in> set args. p < - int (length (columns df)) \<or> int (length (columns df)) \<le> p")
  case True
  with assms show ?thesis
    by (auto simp: remove_columns_def take_positions_def Let_def)
next
  case False
  note t = take_positions_in_range [OF False]
  from assms have "remove_columns args mode df =
      (case take_positions args (columns df) of Inl e \<Rightarrow> Inl e | Inr names \<Rightarrow> drop_columns names df)"
    by (auto simp: remove_columns_def)
  also have "\<dots> = drop_columns
      (map (\<lambda>p. columns df ! nat (if p < 0 then int (length (columns df)) + p else p)) args) df"
    by (simp add: t(1))
  also have "\<dots> = Inr \<lparr> columns = filter (\<lambda>c. c \<notin> (\<lambda>p. columns df ! nat (if p < 0 then int (length (columns df)) + p else p)) ` set args) (columns df),
                 dtypes = map snd (filter (\<lambda>cx. fst cx \<notin> (\<lambda>p. columns df ! nat (if p < 0 then int (length (columns df)) + p else p)) ` set args) (zip (columns df) (dtypes df))),
                 rows = map (\<lambda>r. (fst r, map snd (filter (\<lambda>cx. fst cx \<notin> (\<lambda>p. columns df ! nat (if p < 0 then int (length (columns df)) + p else p)) ` set args) (zip (columns df) (snd r)))))
                            (rows df) \<rparr>"
    using drop_columns_present [OF t(2)] by simp
  finally show ?thesis using False by simp
qed

lemma remove_columns_positions:
  assumes m: "\<not> (mode = ''interval'' \<and> (length args = 1 \<or> length args = 2))"
    and d: "distinct (columns df)" and w: "wf_table df"
    and r: "\<forall>p \<in> set args. 0 \<le> p \<and> p < int (length (columns df))"
  shows "remove_columns args mode df = Inr (delete_column_positions args df)"
proof -
  from r have inr: "\<not> (\<exists>p \<in> set args. p < - int (length (columns df)) \<or> int (length (columns df)) \<le> p)"
    by auto
  from r have L: "(\<lambda>p. columns df ! nat (if p < 0 then int (length (columns df)) + p else p)) ` set args
      = (\<lambda>p. columns df ! nat p) ` set args"
    by (intro image_cong) auto
  from w have ld: "length (columns df) = length (dtypes df)"
    and lr: "\<forall>x \<in> set (rows df). length (columns df) = length (snd x)"
    by (simp_all add: wf_table_def)
  have cols: "filter (\<lambda>c. c \<notin> (\<lambda>p. columns df ! nat p) ` set args) (columns df) = delete_at args (columns df)"
  proof -
    have "filter (\<lambda>c. c \<notin> (\<lambda>p. columns df ! nat p) ` set args) (columns df)
        = map snd (filter (\<lambda>cx. fst cx \<notin> (\<lambda>p. columns df ! nat p) ` set args) (zip (columns df) (columns df)))"
      by (simp add: zip_same_conv_map filter_map o_def)
    also have "\<dots> = delete_at args (columns df)"
      by (rule drop_labels_is_delete_at [OF d r refl])
    finally show ?thesis .
  qed
  have dts: "map snd (filter (\<lambda>cx. fst cx \<notin> (\<lambda>p. columns df ! nat p) ` set args) (zip (columns df) (dtypes df)))
      = delete_at args (dtypes df)"
    by (rule drop_labels_is_delete_at [OF d r ld])
  have rws: "map (\<lambda>x. (fst x, map snd (filter (\<lambda>cx. fst cx \<notin> (\<lambda>p. columns df ! nat p) ` set args) (zip (columns df) (snd x))))) (rows df)
      = map (\<lambda>x. (fst x, delete_at args (snd x))) (rows df)"
  proof (rule map_cong [OF refl])
    fix x assume "x \<in> set (rows df)"
    with lr have "length (columns df) = length (snd x)" by blast
    from drop_labels_is_delete_at [OF d r this]
    show "(fst x, map snd (filter (\<lambda>cx. fst cx \<notin> (\<lambda>p. columns df ! nat p) ` set args) (zip (columns df) (snd x))))
        = (fst x, delete_at args (snd x))" by simp
  qed
  show ?thesis
    unfolding remove_columns_listed [OF m] delete_column_positions_def
    using inr by (simp only: L cols dts rws if_False)
qed


text \<open>
  C10 (as amended). With mode interval and a number of indices other than one or two,
  remove_lines and remove_columns do what they do in individual mode, and raise nothing
  about the arity. remove_lines deletes the rows whose index label is listed, and fails
  with KeyError when a listed label is not in the index; on a table with the default
  index this is the deletion of the rows at the listed positions, provided they are in
  range. remove_columns takes the labels that stand at the listed positions (a negative
  position counting from the end, IndexError when one is out of range) and deletes every
  column that has one of these labels, with its dtype and cells; on a well-formed table
  with distinct column labels and positions from 0 to the number of columns - 1 this is
  the deletion of the columns at the listed positions.
\<close>

theorem interval_other_arity:
  assumes "length args \<noteq> 1" and "length args \<noteq> 2"
  shows "remove_lines args ''interval'' df = remove_lines args ''individual'' df \<and>
         remove_columns args ''interval'' df = remove_columns args ''individual'' df \<and>
         remove_lines args ''interval'' df =
           (if set args \<subseteq> fst ` set (rows df)
            then Inr (df\<lparr>rows := filter (\<lambda>r. fst r \<notin> set args) (rows df)\<rparr>) else Inl KeyError) \<and>
         (default_index df \<longrightarrow>
            remove_lines args ''interval'' df =
              (if \<forall>p \<in> set args. 0 \<le> p \<and> p < int (length (rows df))
               then Inr (delete_positions args df) else Inl KeyError)) \<and>
         remove_columns args ''interval'' df =
           (if \<exists>p \<in> set args. p < - int (length (columns df)) \<or> int (length (columns df)) \<le> p
            then Inl IndexError
            else Inr \<lparr> columns = filter (\<lambda>c. c \<notin> (\<lambda>p. columns df ! nat (if p < 0 then int (length (columns df)) + p else p)) ` set args) (columns df),
                       dtypes = map snd (filter (\<lambda>cx. fst cx \<notin> (\<lambda>p. columns df ! nat (if p < 0 then int (length (columns df)) + p else p)) ` set args) (zip (columns df) (dtypes df))),
                       rows = map (\<lambda>r. (fst r, map snd (filter (\<lambda>cx. fst cx \<notin> (\<lambda>p. columns df ! nat (if p < 0 then int (length (columns df)) + p else p)) ` set args) (zip (columns df) (snd r)))))
                                  (rows df) \<rparr>) \<and>
         (distinct (columns df) \<and> wf_table df \<and>
          (\<forall>p \<in> set args. 0 \<le> p \<and> p < int (length (columns df))) \<longrightarrow>
            remove_columns args ''interval'' df = Inr (delete_column_positions args df))"
proof -
  from assms have m: "\<not> (''interval'' = ''interval'' \<and> (length args = 1 \<or> length args = 2))"
    by simp
  have a: "remove_lines args ''interval'' df = remove_lines args ''individual'' df"
    using assms by (simp add: remove_lines_def)
  have b: "remove_columns args ''interval'' df = remove_columns args ''individual'' df"
    using assms by (simp add: remove_columns_def)
  have r: "remove_lines args ''interval'' df = drop_rows args df"
    using assms by (simp add: remove_lines_def)
  have c: "remove_lines args ''interval'' df =
           (if set args \<subseteq> fst ` set (rows df)
            then Inr (df\<lparr>rows := filter (\<lambda>r. fst r \<notin> set args) (rows df)\<rparr>) else Inl KeyError)"
    unfolding r by (rule drop_rows_labels)
  have d: "default_index df \<longrightarrow>
            remove_lines args ''interval'' df =
              (if \<forall>p \<in> set args. 0 \<le> p \<and> p < int (length (rows df))
               then Inr (delete_positions args df) else Inl KeyError)"
    unfolding r by (rule impI) (rule drop_rows_default_index)
  note e = remove_columns_listed [OF m, of df]
  have f: "distinct (columns df) \<and> wf_table df \<and>
          (\<forall>p \<in> set args. 0 \<le> p \<and> p < int (length (columns df))) \<longrightarrow>
            remove_columns args ''interval'' df = Inr (delete_column_positions args df)"
  proof
    assume h: "distinct (columns df) \<and> wf_table df \<and>
          (\<forall>p \<in> set args. 0 \<le> p \<and> p < int (length (columns df)))"
    then have h1: "distinct (columns df)" and h2: "wf_table df"
      and h3: "\<forall>p \<in> set args. 0 \<le> p \<and> p < int (length (columns df))" by blast+
    show "remove_columns args ''interval'' df = Inr (delete_column_positions args df)"
      by (rule remove_columns_positions [OF m h1 h2 h3])
  qed
  from a b c d e f show ?thesis by (intro conjI)
qed

text \<open>
  On the test table: three row positions, no index at all, three column positions (one
  repeated) that leave column B, and a column position out of range.
\<close>

theorem interval_other_arity_witness:
  "remove_lines [0, 2, 4] ''interval'' df_exemplo = Inr (delete_positions [0, 2, 4] df_exemplo) \<and>
   remove_lines [] ''interval'' df_exemplo = Inr df_exemplo \<and>
   remove_columns [0, 2, 0] ''interval'' df_exemplo = Inr (delete_column_positions [0, 2, 0] df_exemplo) \<and>
   delete_column_positions [0, 2, 0] df_exemplo = df_so_B \<and>
   remove_columns [0, 3, 1] ''interval'' df_exemplo = Inl IndexError"
proof -
  have l3: "length [0, 2, 4 :: int] \<noteq> 1" "length [0, 2, 4 :: int] \<noteq> 2"
    and c3: "length [0, 2, 0 :: int] \<noteq> 1" "length [0, 2, 0 :: int] \<noteq> 2"
    and o3: "length [0, 3, 1 :: int] \<noteq> 1" "length [0, 3, 1 :: int] \<noteq> 2"
    and l0: "length ([] :: int list) \<noteq> 1" "length ([] :: int list) \<noteq> 2"
    by simp_all
  have inrange: "\<forall>p \<in> set [0, 2, 4 :: int]. 0 \<le> p \<and> p < int (length (rows df_exemplo))"
    by (simp add: df_exemplo_def)
  have di: "default_index df_exemplo"
    by (simp add: default_index_def df_exemplo_def upt_rec)
  have hc: "distinct (columns df_exemplo) \<and> wf_table df_exemplo \<and>
          (\<forall>p \<in> set [0, 2, 0 :: int]. 0 \<le> p \<and> p < int (length (columns df_exemplo)))"
    by (simp add: df_exemplo_def wf_table_def)
  have out: "\<exists>p \<in> set [0, 3, 1 :: int].
      p < - int (length (columns df_exemplo)) \<or> int (length (columns df_exemplo)) \<le> p"
    by (simp add: df_exemplo_def)
  note t3 = interval_other_arity [OF l3, of df_exemplo]
  note t0 = interval_other_arity [OF l0, of df_exemplo]
  note tc = interval_other_arity [OF c3, of df_exemplo]
  note to = interval_other_arity [OF o3, of df_exemplo]
  from t3 have "default_index df_exemplo \<longrightarrow>
      remove_lines [0, 2, 4] ''interval'' df_exemplo =
        (if \<forall>p \<in> set [0, 2, 4]. 0 \<le> p \<and> p < int (length (rows df_exemplo))
         then Inr (delete_positions [0, 2, 4] df_exemplo) else Inl KeyError)"
    by (elim conjE)
  from this di have a0: "remove_lines [0, 2, 4] ''interval'' df_exemplo =
        (if \<forall>p \<in> set [0, 2, 4]. 0 \<le> p \<and> p < int (length (rows df_exemplo))
         then Inr (delete_positions [0, 2, 4] df_exemplo) else Inl KeyError)"
    by (rule mp)
  have a: "remove_lines [0, 2, 4] ''interval'' df_exemplo = Inr (delete_positions [0, 2, 4] df_exemplo)"
    unfolding a0 by (rule if_P [OF inrange])
  from t0 have "remove_lines [] ''interval'' df_exemplo =
           (if set [] \<subseteq> fst ` set (rows df_exemplo)
            then Inr (df_exemplo\<lparr>rows := filter (\<lambda>r. fst r \<notin> set []) (rows df_exemplo)\<rparr>)
            else Inl KeyError)"
    by (elim conjE)
  then have b: "remove_lines [] ''interval'' df_exemplo = Inr df_exemplo"
    by simp
  from tc have "distinct (columns df_exemplo) \<and> wf_table df_exemplo \<and>
          (\<forall>p \<in> set [0, 2, 0 :: int]. 0 \<le> p \<and> p < int (length (columns df_exemplo))) \<longrightarrow>
     remove_columns [0, 2, 0] ''interval'' df_exemplo = Inr (delete_column_positions [0, 2, 0] df_exemplo)"
    by (elim conjE)
  with hc
  have c: "remove_columns [0, 2, 0] ''interval'' df_exemplo = Inr (delete_column_positions [0, 2, 0] df_exemplo)"
    by (rule rev_mp)
  have d: "delete_column_positions [0, 2, 0] df_exemplo = df_so_B"
    by code_simp
  from to have "remove_columns [0, 3, 1] ''interval'' df_exemplo =
           (if \<exists>p \<in> set [0, 3, 1]. p < - int (length (columns df_exemplo)) \<or> int (length (columns df_exemplo)) \<le> p
            then Inl IndexError
            else Inr \<lparr> columns = filter (\<lambda>c. c \<notin> (\<lambda>p. columns df_exemplo ! nat (if p < 0 then int (length (columns df_exemplo)) + p else p)) ` set [0, 3, 1]) (columns df_exemplo),
                       dtypes = map snd (filter (\<lambda>cx. fst cx \<notin> (\<lambda>p. columns df_exemplo ! nat (if p < 0 then int (length (columns df_exemplo)) + p else p)) ` set [0, 3, 1]) (zip (columns df_exemplo) (dtypes df_exemplo))),
                       rows = map (\<lambda>r. (fst r, map snd (filter (\<lambda>cx. fst cx \<notin> (\<lambda>p. columns df_exemplo ! nat (if p < 0 then int (length (columns df_exemplo)) + p else p)) ` set [0, 3, 1]) (zip (columns df_exemplo) (snd r)))))
                                  (rows df_exemplo) \<rparr>)"
    by (elim conjE)
  then have e: "remove_columns [0, 3, 1] ''interval'' df_exemplo = Inl IndexError"
    by (simp only: if_P [OF out])
  from a b c d e show ?thesis by (intro conjI)
qed

text \<open>
  C10 as stated fails where C1 does. On the table that lost its first row, three times
  "row 1" deletes the row at position 0, and three times "row 0" fails with KeyError; on
  the table with two columns labelled A, three times "column 0" deletes both of them.
\<close>

theorem interval_other_arity_counterexample:
  "remove_lines [1, 1, 1] ''interval'' df_sem_cabecalho
     \<noteq> Inr (delete_positions [1, 1, 1] df_sem_cabecalho) \<and>
   remove_lines [0, 0, 0] ''interval'' df_sem_cabecalho = Inl KeyError \<and>
   remove_columns [0, 0, 0] ''interval'' df_duplicadas
     \<noteq> Inr (delete_column_positions [0, 0, 0] df_duplicadas)"
  by code_simp

subsection \<open>filter_columns\<close>








subsection \<open>The transforms and the store\<close>

lemma untouched_refl: "untouched h h"
  by (simp add: untouched_def)

lemma untouched_append: "untouched h (h @ hs)"
  by (simp add: untouched_def nth_append)

lemma untouched_trans: "untouched h h1 \<Longrightarrow> untouched h1 h2 \<Longrightarrow> untouched h h2"
  by (simp add: untouched_def)

lemma untouched_update: "length h \<le> r \<Longrightarrow> untouched h h1 \<Longrightarrow> untouched h (h1[r := t])"
  by (simp add: untouched_def)

lemma new_object_untouched:
  "new_object t h = (h', r) \<Longrightarrow> untouched h h' \<and> r = length h \<and> length h' = Suc (length h) \<and> h' ! r = t"
  by (auto simp: new_object_def untouched_append)

lemma remove_lines_store_frame:
  "remove_lines_store args mode df h = (h', res) \<Longrightarrow> untouched h h' \<and> fresh h h' res"
  by (auto simp: remove_lines_store_def new_object_def fresh_def untouched_append untouched_refl
           split: sum.splits)

lemma remove_columns_store_frame:
  "remove_columns_store args mode df h = (h', res) \<Longrightarrow> untouched h h' \<and> fresh h h' res"
  by (auto simp: remove_columns_store_def new_object_def fresh_def untouched_append untouched_refl
           split: sum.splits)

lemma rename_columns_store_frame:
  "rename_columns_store args df h = (h', res) \<Longrightarrow> untouched h h' \<and> fresh h h' res"
  by (auto simp: rename_columns_store_def new_object_def fresh_def untouched_append untouched_refl
           split: sum.splits)

lemma filter_columns_store_frame:
  "filter_columns_store column args df h = (h', res) \<Longrightarrow> untouched h h' \<and> fresh h h' res"
  by (auto simp: filter_columns_store_def new_object_def fresh_def untouched_refl
           untouched_append [of h "[a, b]" for a b, simplified]
           split: sum.splits)

lemma extract_column_store_frame:
  "extract_column_store column mode args df h = (h', res) \<Longrightarrow> untouched h h'"
proof -
  assume a: "extract_column_store column mode args df h = (h', res)"
  obtain t1 where t1: "t1 = \<lparr> columns = select (map Not (duplicated [] (columns (h ! df)))) (columns (h ! df)),
        dtypes = select (map Not (duplicated [] (columns (h ! df)))) (dtypes (h ! df)),
        rows =map (\<lambda>r. (fst r, select (map Not (duplicated [] (columns (h ! df)))) (snd r))) (rows (h ! df)) \<rparr>"
    by simp
  let ?h2 = "h @ [t1] @ [(h @ [t1]) ! length h]"
  let ?df = "Suc (length h)"
  let ?h3 = "?h2[?df := (?h2 ! ?df)\<lparr>columns := map strip (columns (?h2 ! ?df))\<rparr>]"
  have u: "untouched h ?h3"
    by (rule untouched_update) (simp_all add: untouched_append)
  from a have "h' = ?h3"
    by (simp add: extract_column_store_def new_object_def Let_def t1
             split: column_lookup.splits if_splits)
  with u show ?thesis by simp
qed

lemma clean_key_loop_store_frame:
  "clean_key_loop_store cols df h = (h', res) \<Longrightarrow>
   length h' = length h \<and> (\<forall>r < length h. r \<noteq> df \<longrightarrow> h' ! r = h ! r) \<and> (res = Inr df \<or> (\<exists>e. res = Inl e))"
proof (induction cols arbitrary: h)
  case Nil
  then show ?case by auto
next
  case (Cons col cols)
  show ?case
  proof (cases "lookup_column col (columns (h ! df))")
    case Absent
    with Cons.prems show ?thesis by auto
  next
    case Duplicated
    with Cons.prems show ?thesis by auto
  next
    case (Unique i)
    let ?h1 = "h[df := map_column i (\<lambda>c. str_upper (str_strip (Str (str_of_cell c)))) (h ! df)]"
    let ?h2 = "?h1[df := map_column i (\<lambda>c. replace (Str ''NONE'') NA (replace (Str ''NAN'') NA c)) (?h1 ! df)]"
    from Cons.prems Unique have "clean_key_loop_store cols df ?h2 = (h', res)"
      by (simp add: Let_def)
    from Cons.IH [OF this] show ?thesis by simp
  qed
qed

lemma clean_key_store_frame:
  "clean_key_store col df h = (h', res) \<Longrightarrow> untouched h h' \<and> fresh h h' res"
proof -
  assume a: "clean_key_store col df h = (h', res)"
  let ?cols = "case col of One c \<Rightarrow> [c] | Many cs \<Rightarrow> cs"
  from a have "clean_key_loop_store ?cols (length h) (h @ [h ! df]) = (h', res)"
    by (simp add: clean_key_store_def new_object_def Let_def)
  from clean_key_loop_store_frame [OF this]
  have len: "length h' = Suc (length h)"
    and same: "\<forall>r < Suc (length h). r \<noteq> length h \<longrightarrow> h' ! r = (h @ [h ! df]) ! r"
    and res: "res = Inr (length h) \<or> (\<exists>e. res = Inl e)"
    by simp_all
  from same have "\<forall>r < length h. h' ! r = h ! r"
    by (simp add: nth_append)
  with len have "untouched h h'" by (simp add: untouched_def)
  moreover from res len have "fresh h h' res" by (auto simp: fresh_def)
  ultimately show ?thesis ..
qed


lemma untouched_input: "untouched h h' \<Longrightarrow> df < length h \<Longrightarrow> h' ! df = h ! df"
  by (simp add: untouched_def)

text \<open>
  The store-level transforms compute what the functions on tables compute.
\<close>

lemma extract_column_store_result:
  "snd (extract_column_store column mode args df h) = extract_column column mode args (h ! df)"
  by (simp add: extract_column_store_def extract_column_def new_object_def Let_def nth_append
           split: column_lookup.splits)

lemma clean_key_loop_store_result:
  "df < length h \<Longrightarrow> clean_key_loop_store cols df h = (h', res) \<Longrightarrow>
   (case res of Inl e \<Rightarrow> clean_key_loop cols (h ! df) = Inl e
              | Inr r \<Rightarrow> clean_key_loop cols (h ! df) = Inr (h' ! r))"
proof (induction cols arbitrary: h)
  case Nil
  then show ?case by auto
next
  case (Cons col cols)
  show ?case
  proof (cases "lookup_column col (columns (h ! df))")
    case Absent
    with Cons.prems show ?thesis by auto
  next
    case Duplicated
    with Cons.prems show ?thesis by auto
  next
    case (Unique i)
    let ?h1 = "h[df := map_column i (\<lambda>c. str_upper (str_strip (Str (str_of_cell c)))) (h ! df)]"
    let ?h2 = "?h1[df := map_column i (\<lambda>c. replace (Str ''NONE'') NA (replace (Str ''NAN'') NA c)) (?h1 ! df)]"
    from Cons.prems Unique have run: "clean_key_loop_store cols df ?h2 = (h', res)"
      by (simp add: Let_def)
    from Cons.prems have len: "df < length ?h2" by simp
    from Cons.prems have at: "?h2 ! df =
        map_column i (\<lambda>c. replace (Str ''NONE'') NA (replace (Str ''NAN'') NA c))
          (map_column i (\<lambda>c. str_upper (str_strip (Str (str_of_cell c)))) (h ! df))"
      by simp
    have step: "clean_key_loop (col # cols) (h ! df) = clean_key_loop cols (?h2 ! df)"
      unfolding at using Unique by (simp add: Let_def)
    from Cons.IH [OF len run] show ?thesis
      unfolding step .
  qed
qed

lemma clean_key_store_result:
  assumes "df < length h" and "clean_key_store col df h = (h', res)"
  shows "case res of Inl e \<Rightarrow> clean_key col (h ! df) = Inl e
                   | Inr r \<Rightarrow> clean_key col (h ! df) = Inr (h' ! r)"
proof -
  let ?cols = "case col of One c \<Rightarrow> [c] | Many cs \<Rightarrow> cs"
  from assms(2) have run: "clean_key_loop_store ?cols (length h) (h @ [h ! df]) = (h', res)"
    by (simp add: clean_key_store_def new_object_def Let_def)
  have "length h < length (h @ [h ! df])" by simp
  from clean_key_loop_store_result [OF this run]
  have "case res of Inl e \<Rightarrow> clean_key_loop ?cols (h ! df) = Inl e
                  | Inr r \<Rightarrow> clean_key_loop ?cols (h ! df) = Inr (h' ! r)"
    by (simp only: nth_append_length)
  then show ?thesis
    unfolding clean_key_def Let_def .
qed

text \<open>
  C7. Every transform (row removal, column removal, renaming, value-based filtering, key
  normalization, unique-value extraction) leaves the table object it is applied to, and
  every other table object that existed, as it was: whatever it writes, it writes to an
  object allocated during the call, and the table it returns is such a new object. This
  holds also when the transform raises.
\<close>

theorem transforms_leave_input_unchanged:
  assumes "df < length h"
  shows "frame_ok df h (remove_lines_store ints mode df h) \<and>
         frame_ok df h (remove_columns_store ints mode df h) \<and>
         frame_ok df h (rename_columns_store names df h) \<and>
         frame_ok df h (filter_columns_store column vals df h) \<and>
         frame_ok df h (clean_key_store col df h) \<and>
         untouched h (fst (extract_column_store column mode refs df h)) \<and>
         fst (extract_column_store column mode refs df h) ! df = h ! df"
proof -
  have a: "frame_ok df h (remove_lines_store ints mode df h)"
    using remove_lines_store_frame [OF prod.collapse [symmetric]] assms
    by (simp add: frame_ok_def untouched_input)
  have b: "frame_ok df h (remove_columns_store ints mode df h)"
    using remove_columns_store_frame [OF prod.collapse [symmetric]] assms
    by (simp add: frame_ok_def untouched_input)
  have c: "frame_ok df h (rename_columns_store names df h)"
    using rename_columns_store_frame [OF prod.collapse [symmetric]] assms
    by (simp add: frame_ok_def untouched_input)
  have d: "frame_ok df h (filter_columns_store column vals df h)"
    using filter_columns_store_frame [OF prod.collapse [symmetric]] assms
    by (simp add: frame_ok_def untouched_input)
  have e: "frame_ok df h (clean_key_store col df h)"
    using clean_key_store_frame [OF prod.collapse [symmetric]] assms
    by (simp add: frame_ok_def untouched_input)
  have f: "untouched h (fst (extract_column_store column mode refs df h))"
    using extract_column_store_frame [OF prod.collapse [symmetric]] .
  from f assms have g: "fst (extract_column_store column mode refs df h) ! df = h ! df"
    by (rule untouched_input)
  from a b c d e f g show ?thesis by (intro conjI)
qed

text \<open>
  On the store holding the test table only: the table is as before after key
  normalization, after a normalization and a filter that raise, and after an extraction.
\<close>

theorem transforms_leave_input_unchanged_witness:
  "fst (clean_key_store (One ''B'') 0 [df_exemplo]) ! 0 = df_exemplo \<and>
   fst (clean_key_store (One ''Z'') 0 [df_exemplo]) ! 0 = df_exemplo \<and>
   snd (clean_key_store (One ''Z'') 0 [df_exemplo]) = Inl KeyError \<and>
   fst (filter_columns_store ''A'' (Variadic [Num 1]) 0 [df_exemplo]) ! 0 = df_exemplo \<and>
   fst (extract_column_store ''B'' ''in'' [] 0 [df_exemplo]) ! 0 = df_exemplo"
proof -
  have l: "0 < length [df_exemplo]" by simp
  note t = transforms_leave_input_unchanged [OF l]
  have a: "fst (clean_key_store (One ''B'') 0 [df_exemplo]) ! 0 = df_exemplo"
    using t [where col = "One ''B''"] by (simp add: frame_ok_def)
  have b: "fst (clean_key_store (One ''Z'') 0 [df_exemplo]) ! 0 = df_exemplo"
    using t [where col = "One ''Z''"] by (simp add: frame_ok_def)
  have c: "snd (clean_key_store (One ''Z'') 0 [df_exemplo]) = Inl KeyError"
    by code_simp
  have d: "fst (filter_columns_store ''A'' (Variadic [Num 1]) 0 [df_exemplo]) ! 0 = df_exemplo"
    using t [where column = "''A''" and vals = "Variadic [Num 1]"] by (simp add: frame_ok_def)
  have e: "fst (extract_column_store ''B'' ''in'' [] 0 [df_exemplo]) ! 0 = df_exemplo"
    using t [where column = "''B''" and mode = "''in''" and refs = "[]"] by simp
  from a b c d e show ?thesis by (intro conjI)
qed


subsection \<open>clean_key and extract_column on the failing inputs\<close>

text \<open>
  C2 fails on the code. Applied to a column holding the text nan (or None), clean_key gives
  the missing value \<open>pd.NA\<close>; applied again, it turns \<open>pd.NA\<close> into the string
  \<open><NA>\<close>, which the two replacements do not map back. Twice is not once.
\<close>

theorem clean_key_twice_differs:
  "clean_key (Many [''X'']) df_chaves = Inr df_chaves_once \<and>
   clean_key (Many [''X'']) df_chaves_once = Inr df_chaves_twice \<and>
   df_chaves_twice \<noteq> df_chaves_once"
  by code_simp

text \<open>
  C5 fails on the code. The duplicate columns are dropped before the labels are stripped:
  two labels that differ by surrounding whitespace both survive, both become the requested
  name, and the extraction raises AttributeError instead of returning the values.
\<close>

theorem extract_column_duplicate_after_strip:
  "extract_column ''KAM'' ''not-in'' [Str ''A CLASSIFICAR''] df_nomes = Inl AttributeError \<and>
   extract_column ''KAM'' ''in'' [Str ''A CLASSIFICAR''] df_nomes = Inl AttributeError"
  by code_simp

end
